theory Spec2Isabelle
  imports Main "HOL-Library.AList" "HOL-Library.Sublist"
begin

section \<open>Python values, dictionaries and exceptions\<close>

text \<open>
  The values that reach \<^verbatim>\<open>shared/base_server.py\<close>. \<open>PCompound\<close> is a schema-typed
  zeep object (a \<^verbatim>\<open>CompoundValue\<close>, which carries the table \<^verbatim>\<open>__values__\<close>);
  \<open>PObject\<close> is any other instance, given by its \<^verbatim>\<open>__dict__\<close>, with no \<^verbatim>\<open>__len__\<close>
  and no \<^verbatim>\<open>items\<close>. Floats are left out.
\<close>

datatype pyval =
    PNone
  | PBool bool
  | PInt int
  | PStr string
  | PList "pyval list"
  | PDict "(string \<times> pyval) list"
  | PCompound "(string \<times> pyval) list"
  | PObject "(string \<times> pyval) list"

text \<open>
  A \<^verbatim>\<open>dict\<close> is an association list in insertion order. Storing under a key that is
  present replaces the value in place, storing under a new key appends: this is
  \<open>AList.update\<close>. A dictionary of the program has pairwise distinct keys.
\<close>

type_synonym dict = "(string \<times> pyval) list"

definition dict_merge :: "dict \<Rightarrow> dict \<Rightarrow> dict" where
  \<comment> \<open>the display \<^verbatim>\<open>{<base items>, **extra}\<close>\<close>
  "dict_merge base extra = fold (\<lambda>(k, v) d. AList.update k v d) extra base"

definition dict_eq :: "dict \<Rightarrow> dict \<Rightarrow> bool" where
  \<comment> \<open>\<^verbatim>\<open>==\<close> of two dictionaries: same size, same value under every key\<close>
  "dict_eq a b = (length a = length b \<and> list_all (\<lambda>(k, v). map_of b k = Some v) a)"

text \<open>
  Exceptions, in the order of the \<^verbatim>\<open>except\<close> clauses of \<^verbatim>\<open>safe_soap_call\<close>.
  \<open>TransportError s\<close> carries \<^verbatim>\<open>str(e)\<close>. \<open>Fault message code detail s\<close> carries the
  string forms of the three attributes the handler probes with \<^verbatim>\<open>hasattr\<close>
  (\<open>None\<close>: the attribute is missing) and \<^verbatim>\<open>str(e)\<close>. \<open>Exception t s\<close> is any other
  subclass of \<^verbatim>\<open>Exception\<close>, with \<^verbatim>\<open>type(e).__name__\<close> and \<^verbatim>\<open>str(e)\<close>.
\<close>

datatype exn =
    TransportError string
  | Fault "string option" "string option" "string option" string
  | Exception string string

fun exn_str :: "exn \<Rightarrow> string" where
  "exn_str (TransportError s) = s"
| "exn_str (Fault message code detail s) = s"
| "exn_str (Exception t s) = s"

section \<open>Credentials\<close>

definition truthy :: "string option \<Rightarrow> bool" where
  \<comment> \<open>truth value of an \<^verbatim>\<open>Optional[str]\<close>: \<^verbatim>\<open>None\<close> and \<^verbatim>\<open>""\<close> are false\<close>
  "truthy v = (case v of None \<Rightarrow> False | Some s \<Rightarrow> s \<noteq> [])"

definition py_or :: "string option \<Rightarrow> string option \<Rightarrow> string option" where
  "py_or a b = (if truthy a then a else b)"

definition missing_credentials_msg :: string where
  "missing_credentials_msg =
     ''Missing required credentials. Please provide reseller_id and api_key parameters, '' @
     ''or set SYNERGY_RESELLER_ID and SYNERGY_API_KEY environment variables.''"

definition validate_credentials ::
  "(string \<Rightarrow> string option) \<Rightarrow> string option \<Rightarrow> string option \<Rightarrow> exn + (string \<times> string)" where
  "validate_credentials getenv reseller_id api_key =
     (let final_reseller_id = py_or reseller_id (getenv ''SYNERGY_RESELLER_ID'');
          final_api_key = py_or api_key (getenv ''SYNERGY_API_KEY'')
      in if \<not> truthy final_reseller_id \<or> \<not> truthy final_api_key
         then Inl (Exception ''ValueError'' missing_credentials_msg)
         else (case (final_reseller_id, final_api_key) of
                 (Some r, Some k) \<Rightarrow> Inr (r, k)
               | _ \<Rightarrow> Inl (Exception ''ValueError'' missing_credentials_msg)))"

definition add_auth ::
  "(string \<Rightarrow> string option) \<Rightarrow> dict \<Rightarrow> string option \<Rightarrow> string option \<Rightarrow> exn + dict" where
  "add_auth getenv params reseller_id api_key =
     (case validate_credentials getenv reseller_id api_key of
        Inl e \<Rightarrow> Inl e
      | Inr (final_reseller_id, final_api_key) \<Rightarrow>
          Inr (dict_merge
                 [(''resellerID'', PStr final_reseller_id), (''apiKey'', PStr final_api_key)]
                 params))"

section \<open>Response normalisation\<close>

text \<open>
  \<^verbatim>\<open>zeep.helpers.serialize_object\<close>: a list is serialised element by element, a
  dictionary or a schema-typed object becomes a plain mapping of its serialised
  fields, anything else is returned as it is.
\<close>

primrec serialize_object :: "pyval \<Rightarrow> pyval" where
  "serialize_object PNone = PNone"
| "serialize_object (PBool b) = PBool b"
| "serialize_object (PInt i) = PInt i"
| "serialize_object (PStr s) = PStr s"
| "serialize_object (PList xs) = PList (map serialize_object xs)"
| "serialize_object (PDict kvs) = PDict (map (map_prod id serialize_object) kvs)"
| "serialize_object (PCompound kvs) = PDict (map (map_prod id serialize_object) kvs)"
| "serialize_object (PObject fs) = PObject fs"

text \<open>A plain value holds no schema-typed object and no instance, at any depth.\<close>

primrec plain :: "pyval \<Rightarrow> bool" where
  "plain PNone = True"
| "plain (PBool b) = True"
| "plain (PInt i) = True"
| "plain (PStr s) = True"
| "plain (PList xs) = list_all id (map plain xs)"
| "plain (PDict kvs) = list_all snd (map (map_prod id plain) kvs)"
| "plain (PCompound kvs) = False"
| "plain (PObject fs) = False"

definition digit :: "nat \<Rightarrow> char" where
  "digit d = ''0123456789'' ! d"

fun string_of_nat :: "nat \<Rightarrow> string" where
  "string_of_nat n =
     (if 10 \<le> n then string_of_nat (n div 10) @ [digit (n mod 10)] else [digit n])"

definition string_of_int :: "int \<Rightarrow> string" where
  "string_of_int i = (if i < 0 then CHR ''-'' # string_of_nat (nat (- i)) else string_of_nat (nat i))"

text \<open>
  \<^verbatim>\<open>str(response)\<close> in the last resort of \<^verbatim>\<open>handle_soap_response\<close>. That branch is
  reached by numbers and booleans only (lemma \<open>last_resort_scalar\<close> below): a list, a
  string and a mapping have a length, a schema-typed object has \<^verbatim>\<open>__values__\<close> and an
  instance has \<^verbatim>\<open>__dict__\<close>. The other values get their type's name in angle brackets.
\<close>

fun py_str :: "pyval \<Rightarrow> string" where
  "py_str PNone = ''None''"
| "py_str (PBool b) = (if b then ''True'' else ''False'')"
| "py_str (PInt i) = string_of_int i"
| "py_str (PStr s) = s"
| "py_str (PList xs) = ''<list>''"
| "py_str (PDict kvs) = ''<dict>''"
| "py_str (PCompound kvs) = ''<CompoundValue>''"
| "py_str (PObject fs) = ''<object>''"

fun py_len :: "pyval \<Rightarrow> exn + nat" where
  "py_len (PStr s) = Inr (length s)"
| "py_len (PList xs) = Inr (length xs)"
| "py_len (PDict kvs) = Inr (length kvs)"
| "py_len (PCompound kvs) = Inr (length kvs)"
| "py_len v = Inl (Exception ''TypeError'' ''object has no len()'')"

definition try_serialize :: "pyval \<Rightarrow> exn + pyval" where
  \<comment> \<open>the \<^verbatim>\<open>try\<close> block of lines 108-112: \<^verbatim>\<open>dict(result)\<close> keeps a mapping as it is,
      and the debug message needs \<^verbatim>\<open>len(result)\<close>\<close>
  "try_serialize response =
     (let result = serialize_object response
      in case py_len result of Inl e \<Rightarrow> Inl e | Inr n \<Rightarrow> Inr result)"

definition manual_extraction :: "pyval \<Rightarrow> dict" where
  \<comment> \<open>the \<^verbatim>\<open>except\<close> block of lines 113-124\<close>
  "manual_extraction response =
     (case response of
        PCompound values \<Rightarrow> values
      | PObject fs \<Rightarrow> filter (\<lambda>(k, v). \<not> prefix ''_'' k) fs
      | _ \<Rightarrow> [(''result'', PStr (py_str response))])"

definition check_status :: "pyval \<Rightarrow> exn + pyval" where
  \<comment> \<open>lines 126-136: \<^verbatim>\<open>"status" in result\<close> is a key test on a mapping, a membership
      test on a list and a substring test on a string; \<^verbatim>\<open>result["status"]\<close> raises
      on a list and on a string. The last two cases are never reached from
      \<^verbatim>\<open>handle_soap_response\<close>: what it passes on is a mapping, a list or a string.\<close>
  "check_status result =
     (case result of
        PDict d \<Rightarrow>
          (case map_of d ''status'' of
             Some (PStr status) \<Rightarrow>
               if prefix ''ERR_'' status
               then (let error_msg = (case map_of d ''errorMessage'' of
                                        Some m \<Rightarrow> m
                                      | None \<Rightarrow> PStr ''Unknown error occurred'')
                     in Inr (PDict (dict_merge
                                      [(''error'', error_msg), (''status'', PStr status)] d)))
               else Inr result
           | _ \<Rightarrow> Inr result)
      | PList xs \<Rightarrow>
          if PStr ''status'' \<in> set xs
          then Inl (Exception ''TypeError'' ''list indices must be integers or slices, not str'')
          else Inr result
      | PStr s \<Rightarrow>
          if sublist ''status'' s
          then Inl (Exception ''TypeError'' ''string indices must be integers'')
          else Inr result
      | PCompound kvs \<Rightarrow> Inr result
      | _ \<Rightarrow> Inl (Exception ''TypeError'' ''argument is not iterable''))"

definition handle_soap_response :: "pyval \<Rightarrow> exn + pyval" where
  "handle_soap_response response =
     (if response = PNone then Inr (PDict [(''error'', PStr ''No response received from API'')])
      else check_status
             (case try_serialize response of
                Inr result \<Rightarrow> result
              | Inl e \<Rightarrow> PDict (manual_extraction response)))"

section \<open>Connection and calls\<close>

text \<open>
  A remote operation is called either with one positional request object or with
  keyword arguments. What the endpoint answers is not the program's: a client is
  given by what its parts return or raise. \<open>service c name\<close> is
  \<^verbatim>\<open>getattr(client.service, name)\<close>, \<open>get_type c qname\<close> is \<^verbatim>\<open>client.get_type(qname)\<close>,
  whose result builds a request object from keyword arguments.
\<close>

datatype call_args = Positional pyval | Keywords dict

type_synonym operation = "call_args \<Rightarrow> exn + pyval"

record client =
  service :: "string \<Rightarrow> exn + operation"
  get_type :: "string \<Rightarrow> exn + (dict \<Rightarrow> exn + pyval)"

text \<open>
  The surroundings of the process: the environment variables, the builtin
  \<^verbatim>\<open>int\<close> on a string, and the construction \<^verbatim>\<open>Client(WSDL_URL, transport, settings)\<close>
  with the transport's timeout, which fetches the descriptor.
\<close>

record world =
  getenv :: "string \<Rightarrow> string option"
  py_int :: "string \<Rightarrow> exn + int"
  Client :: "string \<Rightarrow> int \<Rightarrow> exn + client"

text \<open>Network activity is recorded in the order it happens.\<close>

datatype event = DescriptorFetch string int | RemoteCall string call_args

record server_state =
  soap_client :: "client option"
  events :: "event list"

definition WSDL_URL :: string where
  "WSDL_URL = ''https://api.synergywholesale.com/server.php?wsdl''"

definition DEFAULT_TIMEOUT :: int where
  "DEFAULT_TIMEOUT = 30"

definition get_soap_client :: "world \<Rightarrow> server_state \<Rightarrow> (exn + client) \<times> server_state" where
  "get_soap_client w st =
     (case soap_client st of
        Some c \<Rightarrow> (Inr c, st)
      | None \<Rightarrow>
          (case py_int w (case getenv w ''API_TIMEOUT'' of
                            None \<Rightarrow> string_of_int DEFAULT_TIMEOUT
                          | Some s \<Rightarrow> s) of
             Inl e \<Rightarrow>
               (Inl (Exception ''ValueError''
                       (''Could not connect to Synergy Wholesale API: '' @ exn_str e)), st)
           | Inr timeout \<Rightarrow>
               (let st1 = st\<lparr>events := events st @ [DescriptorFetch WSDL_URL timeout]\<rparr>
                in case Client w WSDL_URL timeout of
                     Inl e \<Rightarrow>
                       (Inl (Exception ''ValueError''
                               (''Could not connect to Synergy Wholesale API: '' @ exn_str e)), st1)
                   | Inr c \<Rightarrow> (Inr c, st1\<lparr>soap_client := Some c\<rparr>))))"

definition call_method ::
  "operation \<Rightarrow> string \<Rightarrow> call_args \<Rightarrow> server_state \<Rightarrow> (exn + pyval) \<times> server_state" where
  \<comment> \<open>one round trip: \<^verbatim>\<open>method(request_obj)\<close> or \<^verbatim>\<open>method(**auth_params)\<close>\<close>
  "call_method method method_name args st =
     (method args, st\<lparr>events := events st @ [RemoteCall method_name args]\<rparr>)"

definition typed_call ::
  "client \<Rightarrow> operation \<Rightarrow> string \<Rightarrow> dict \<Rightarrow> server_state \<Rightarrow> (exn + pyval) \<times> server_state" where
  \<comment> \<open>the inner \<^verbatim>\<open>try\<close> block, lines 153-163\<close>
  "typed_call c method method_name auth_params st =
     (case get_type c (''{urn:WholesaleSystem}'' @ method_name @ ''Request'') of
        Inl e \<Rightarrow> (Inl e, st)
      | Inr request_type \<Rightarrow>
          (case request_type auth_params of
             Inl e \<Rightarrow> (Inl e, st)
           | Inr request_obj \<Rightarrow> call_method method method_name (Positional request_obj) st))"

definition safe_soap_call_body ::
  "world \<Rightarrow> server_state \<Rightarrow> string \<Rightarrow> dict \<Rightarrow> string option \<Rightarrow> string option
     \<Rightarrow> (exn + pyval) \<times> server_state" where
  \<comment> \<open>the outer \<^verbatim>\<open>try\<close> block, lines 141-171\<close>
  "safe_soap_call_body w st method_name params reseller_id api_key =
     (case get_soap_client w st of
        (Inl e, st1) \<Rightarrow> (Inl e, st1)
      | (Inr c, st1) \<Rightarrow>
          (case service c method_name of
             Inl e \<Rightarrow> (Inl e, st1)
           | Inr method \<Rightarrow>
               (case add_auth (getenv w) params reseller_id api_key of
                  Inl e \<Rightarrow> (Inl e, st1)
                | Inr auth_params \<Rightarrow>
                    (case typed_call c method method_name auth_params st1 of
                       (Inr response, st2) \<Rightarrow> (handle_soap_response response, st2)
                     | (Inl type_error, st2) \<Rightarrow>
                         (case call_method method method_name (Keywords auth_params) st2 of
                            (Inl e, st3) \<Rightarrow> (Inl e, st3)
                          | (Inr response, st3) \<Rightarrow> (handle_soap_response response, st3))))))"

definition fault_envelope :: "string option \<Rightarrow> string option \<Rightarrow> string option \<Rightarrow> string \<Rightarrow> string \<Rightarrow> dict" where
  \<comment> \<open>lines 183-191\<close>
  "fault_envelope message code detail s method_name =
     (let fault_detail =
            [(''error'', PStr (''SOAP Fault: '' @ (case message of Some m \<Rightarrow> m | None \<Rightarrow> s))),
             (''method'', PStr method_name)];
          fault_detail = (case code of
                            Some c \<Rightarrow> AList.update ''fault_code'' (PStr c) fault_detail
                          | None \<Rightarrow> fault_detail);
          fault_detail = (case detail of
                            Some d \<Rightarrow> AList.update ''fault_detail'' (PStr d) fault_detail
                          | None \<Rightarrow> fault_detail)
      in fault_detail)"

definition safe_soap_call ::
  "world \<Rightarrow> server_state \<Rightarrow> string \<Rightarrow> dict \<Rightarrow> string option \<Rightarrow> string option
     \<Rightarrow> (exn + pyval) \<times> server_state" where
  "safe_soap_call w st method_name params reseller_id api_key =
     (case safe_soap_call_body w st method_name params reseller_id api_key of
        (Inr result, st') \<Rightarrow> (Inr result, st')
      | (Inl (TransportError s), st') \<Rightarrow>
          (Inr (PDict [(''error'', PStr (''Transport error: '' @ s)),
                       (''method'', PStr method_name),
                       (''suggestion'', PStr ''Check network connectivity and API endpoint'')]),
           st')
      | (Inl (Fault message code detail s), st') \<Rightarrow>
          (Inr (PDict (fault_envelope message code detail s method_name)), st')
      | (Inl (Exception t s), st') \<Rightarrow>
          (Inr (PDict [(''error'', PStr s), (''method'', PStr method_name),
                       (''error_type'', PStr t)]),
           st'))"



section \<open>Stub endpoints\<close>

text \<open>
  Test doubles for the endpoint, used where a statement is evaluated on a concrete
  run: an operation that always times out, one that times out for a typed request
  only, a client whose descriptor knows every request type, one whose descriptor
  knows none, and a process with a given environment whose descriptor fetch succeeds.
\<close>

fun is_remote_call :: "event \<Rightarrow> bool" where
  "is_remote_call (RemoteCall name args) = True"
| "is_remote_call (DescriptorFetch url timeout) = False"

definition stub_int :: "string \<Rightarrow> exn + int" where
  "stub_int s = (if s = ''30'' then Inr 30
                 else Inl (Exception ''ValueError'' ''invalid literal for int() with base 10''))"

definition timing_out :: operation where
  "timing_out args = Inl (TransportError ''timed out'')"

definition typed_times_out :: operation where
  "typed_times_out args =
     (case args of
        Positional request_obj \<Rightarrow> Inl (TransportError ''timed out'')
      | Keywords kw \<Rightarrow> Inr (PDict [(''status'', PStr ''OK'')]))"

definition typed_client :: "operation \<Rightarrow> client" where
  "typed_client method =
     \<lparr>service = (\<lambda>name. Inr method), get_type = (\<lambda>qname. Inr (\<lambda>kw. Inr (PCompound kw)))\<rparr>"

definition untyped_client :: "operation \<Rightarrow> client" where
  "untyped_client method =
     \<lparr>service = (\<lambda>name. Inr method),
      get_type = (\<lambda>qname. Inl (Exception ''LookupError'' ''No type found''))\<rparr>"

definition stub_world :: "(string \<Rightarrow> string option) \<Rightarrow> client \<Rightarrow> world" where
  "stub_world env c = \<lparr>getenv = env, py_int = stub_int, Client = (\<lambda>url timeout. Inr c)\<rparr>"

definition no_env :: "string \<Rightarrow> string option" where
  "no_env name = None"

definition fresh :: server_state where
  "fresh = \<lparr>soap_client = None, events = []\<rparr>"

section \<open>Facts about dictionaries and serialisation\<close>

lemma map_of_serialized:
  "map_of (map (map_prod id f) m) k = map_option f (map_of m k)"
  by (induction m) auto

lemma map_of_dict_merge:
  "distinct (map fst extra) \<Longrightarrow>
   map_of (dict_merge base extra) k = (case map_of extra k of Some v \<Rightarrow> Some v | None \<Rightarrow> map_of base k)"
  unfolding dict_merge_def
proof (induction extra arbitrary: base)
  case Nil
  then show ?case by simp
next
  case (Cons p extra)
  obtain k' v' where p: "p = (k', v')" by (cases p)
  from Cons.prems have notin: "k' \<notin> fst ` set extra" and d: "distinct (map fst extra)"
    by (auto simp: p)
  from notin have none: "map_of extra k' = None"
    by (simp add: map_of_eq_None_iff)
  show ?case
    using Cons.IH [OF d, of "AList.update k' v' base"] none
    by (auto simp: p update_conv' split: option.splits)
qed

lemma plain_serialize: "plain v \<Longrightarrow> serialize_object v = v"
  by (induction v) (auto simp: list_all_iff map_idI intro!: map_idI)

lemma update_new_key: "k \<notin> fst ` set al \<Longrightarrow> AList.update k v al = al @ [(k, v)]"
  by (induction al) auto

lemma update_below_head: "k \<noteq> fst x \<Longrightarrow> AList.update k v (x # al) = x # AList.update k v al"
  by (cases x) simp

lemma dict_merge_keeps_head:
  "fst x \<notin> fst ` set extra \<Longrightarrow> dict_merge (x # base) extra = x # dict_merge base extra"
  unfolding dict_merge_def
proof (induction extra arbitrary: base)
  case Nil
  then show ?case by simp
next
  case (Cons p extra)
  then show ?case by (cases p) (auto simp: update_below_head)
qed

lemma dict_merge_same_keys:
  "distinct (map fst p) \<Longrightarrow> map fst p = map fst base \<Longrightarrow> dict_merge base p = p"
proof (induction p arbitrary: base)
  case Nil
  then show ?case by (simp add: dict_merge_def)
next
  case (Cons x p)
  then obtain y base' where base: "base = y # base'" and k: "fst y = fst x"
    and ks: "map fst p = map fst base'"
    by (cases base) auto
  have step: "dict_merge base (x # p) = dict_merge (x # base') p"
    using k by (cases x; cases y) (simp add: dict_merge_def base)
  have "fst x \<notin> fst ` set p" using Cons.prems(1) by auto
  then have "dict_merge (x # base') p = x # dict_merge base' p"
    by (rule dict_merge_keeps_head)
  also have "dict_merge base' p = p"
    using Cons.IH [OF _ ks] Cons.prems(1) by simp
  finally show ?case using step by simp
qed

lemma dict_merge_new_keys:
  "distinct (map fst r) \<Longrightarrow> fst ` set r \<inter> fst ` set p = {} \<Longrightarrow> dict_merge p r = p @ r"
proof (induction r arbitrary: p)
  case Nil
  then show ?case by (simp add: dict_merge_def)
next
  case (Cons x r)
  obtain k v where x: "x = (k, v)" by (cases x)
  have "k \<notin> fst ` set p" using Cons.prems(2) by (auto simp: x)
  then have u: "AList.update k v p = p @ [(k, v)]" by (rule update_new_key)
  have "dict_merge p (x # r) = dict_merge (p @ [(k, v)]) r"
    by (simp add: dict_merge_def x u)
  also have "\<dots> = (p @ [(k, v)]) @ r"
    using Cons.prems by (intro Cons.IH) (auto simp: x)
  finally show ?case by (simp add: x)
qed

lemma dict_merge_append:
  "dict_merge base (p @ r) = dict_merge (dict_merge base p) r"
  by (simp add: dict_merge_def)

lemma dict_merge_keys_prefix:
  "\<exists>r. map fst (dict_merge base extra) = map fst base @ r"
  unfolding dict_merge_def
proof (induction extra arbitrary: base)
  case Nil
  then show ?case by simp
next
  case (Cons x extra)
  obtain k v where x: "x = (k, v)" by (cases x)
  from Cons.IH [of "AList.update k v base"] obtain r where
    r: "map fst (fold (\<lambda>(k, v). AList.update k v) extra (AList.update k v base)) =
        map fst (AList.update k v base) @ r" by blast
  show ?case
    by (cases "k \<in> set (map fst base)") (use r in \<open>auto simp: x update_keys\<close>)
qed

lemma dict_merge_distinct:
  "distinct (map fst base) \<Longrightarrow> distinct (map fst (dict_merge base extra))"
  unfolding dict_merge_def
  by (induction extra arbitrary: base) (auto simp: distinct_update)

lemma dict_merge_absorbs:
  assumes "distinct (map fst base)" and "map fst base' = map fst base"
  shows "dict_merge base' (dict_merge base extra) = dict_merge base extra"
proof -
  let ?X = "dict_merge base extra"
  let ?n = "length base"
  obtain r where r: "map fst ?X = map fst base @ r"
    using dict_merge_keys_prefix by blast
  have dX: "distinct (map fst ?X)" using assms(1) by (rule dict_merge_distinct)
  have X: "?X = take ?n ?X @ drop ?n ?X" by simp
  have kp: "map fst (take ?n ?X) = map fst base"
    using r by (simp add: take_map [symmetric])
  have kd: "map fst (drop ?n ?X) = r"
    using r by (simp add: drop_map [symmetric])
  have dp: "distinct (map fst (take ?n ?X))" using assms(1) kp by simp
  have dr: "distinct (map fst (drop ?n ?X))" using dX r kd by simp
  have disj: "fst ` set (drop ?n ?X) \<inter> fst ` set (take ?n ?X) = {}"
  proof -
    have "set (map fst (drop ?n ?X)) \<inter> set (map fst (take ?n ?X)) = {}"
      using dX r unfolding kp kd by auto
    then show ?thesis by simp
  qed
  have "dict_merge base' ?X = dict_merge (dict_merge base' (take ?n ?X)) (drop ?n ?X)"
    using dict_merge_append [of base' "take ?n ?X" "drop ?n ?X"] by simp
  also have "dict_merge base' (take ?n ?X) = take ?n ?X"
    using dp kp assms(2) by (intro dict_merge_same_keys) simp_all
  also have "dict_merge (take ?n ?X) (drop ?n ?X) = take ?n ?X @ drop ?n ?X"
    using dr disj by (rule dict_merge_new_keys)
  finally show ?thesis by simp
qed


lemma plain_dict_iff: "plain (PDict kvs) \<longleftrightarrow> (\<forall>v \<in> snd ` set kvs. plain v)"
  by (auto simp: list_all_iff)

lemma set_dict_merge: "set (dict_merge base extra) \<subseteq> set base \<union> set extra"
  unfolding dict_merge_def
proof (induction extra arbitrary: base)
  case Nil
  then show ?case by simp
next
  case (Cons x extra)
  obtain k v where x: "x = (k, v)" by (cases x)
  have "set (AList.update k v base) \<subseteq> insert (k, v) (set base)"
    by (induction base) auto
  with Cons.IH [of "AList.update k v base"] show ?case
    by (auto simp: x)
qed

lemma check_status_retag:
  assumes "map_of d ''status'' = Some (PStr s)" and "prefix ''ERR_'' s"
  shows "check_status (PDict d) =
         Inr (PDict (dict_merge
                       [(''error'', case map_of d ''errorMessage'' of
                                      Some m \<Rightarrow> m | None \<Rightarrow> PStr ''Unknown error occurred''),
                        (''status'', PStr s)] d))"
  using assms by (simp add: check_status_def)

lemma check_status_pass:
  assumes "\<not> (\<exists>s. map_of d ''status'' = Some (PStr s) \<and> prefix ''ERR_'' s)"
  shows "check_status (PDict d) = Inr (PDict d)"
  using assms by (auto simp: check_status_def split: option.splits pyval.splits)

lemma handle_plain_dict:
  "plain (PDict m) \<Longrightarrow> handle_soap_response (PDict m) = check_status (PDict m)"
  using plain_serialize [of "PDict m"]
  by (simp add: handle_soap_response_def try_serialize_def del: serialize_object.simps plain.simps)

lemma last_resort_scalar:
  "try_serialize response = Inl e \<Longrightarrow>
   response = PNone \<or> (\<exists>b. response = PBool b) \<or> (\<exists>i. response = PInt i)
     \<or> (\<exists>fs. response = PObject fs)"
  by (cases response) (auto simp: try_serialize_def)

section \<open>Facts about the orchestrator\<close>

lemma default_timeout_str: "string_of_int DEFAULT_TIMEOUT = ''30''"
  by (simp add: DEFAULT_TIMEOUT_def string_of_int_def digit_def)

lemmas stubs = stub_world_def stub_int_def typed_client_def untyped_client_def no_env_def fresh_def
  timing_out_def typed_times_out_def

lemmas run = safe_soap_call_def safe_soap_call_body_def get_soap_client_def typed_call_def
  call_method_def add_auth_def validate_credentials_def py_or_def truthy_def dict_merge_def
  default_timeout_str handle_soap_response_def try_serialize_def check_status_def

lemma validate_credentials_error:
  "validate_credentials env r k = Inl e \<Longrightarrow> e = Exception ''ValueError'' missing_credentials_msg"
  by (auto simp: validate_credentials_def Let_def split: if_splits option.splits)

lemma get_soap_client_error:
  "get_soap_client w st = (Inl e, st1) \<Longrightarrow> \<exists>s. e = Exception ''ValueError'' s"
  by (auto simp: get_soap_client_def Let_def split: option.splits sum.splits)

lemma get_soap_client_events:
  "events (snd (get_soap_client w st)) =
     events st @
       (case soap_client st of
          Some c \<Rightarrow> []
        | None \<Rightarrow>
            (case py_int w (case getenv w ''API_TIMEOUT'' of
                              None \<Rightarrow> string_of_int DEFAULT_TIMEOUT | Some s \<Rightarrow> s) of
               Inl e \<Rightarrow> []
             | Inr timeout \<Rightarrow> [DescriptorFetch WSDL_URL timeout]))"
  by (auto simp: get_soap_client_def Let_def split: option.splits sum.splits)

lemma body_without_credentials:
  assumes "validate_credentials (getenv w) reseller_id api_key = Inl e"
  shows "snd (safe_soap_call_body w st m p reseller_id api_key) = snd (get_soap_client w st)"
    and "\<exists>e'. fst (safe_soap_call_body w st m p reseller_id api_key) = Inl e'"
    and "get_soap_client w st = (Inr c, st1) \<Longrightarrow> service c m = Inr method \<Longrightarrow>
         fst (safe_soap_call_body w st m p reseller_id api_key) =
           Inl (Exception ''ValueError'' missing_credentials_msg)"
  using assms validate_credentials_error [OF assms]
  by (auto simp: safe_soap_call_body_def add_auth_def split: prod.splits sum.splits)

lemma envelope_of_body:
  assumes "fst (safe_soap_call_body w st m p rid k) = Inl e"
  shows "fst (safe_soap_call w st m p rid k) =
           Inr (PDict (case e of
                  TransportError s \<Rightarrow>
                    [(''error'', PStr (''Transport error: '' @ s)), (''method'', PStr m),
                     (''suggestion'', PStr ''Check network connectivity and API endpoint'')]
                | Fault message code detail s \<Rightarrow> fault_envelope message code detail s m
                | Exception t s \<Rightarrow>
                    [(''error'', PStr s), (''method'', PStr m), (''error_type'', PStr t)]))"
    and "snd (safe_soap_call w st m p rid k) = snd (safe_soap_call_body w st m p rid k)"
  using assms
  by (auto simp: safe_soap_call_def split: prod.splits sum.splits exn.splits)

lemma fault_envelope_keys:
  "map_of (fault_envelope message code detail s m) ''error'' =
     Some (PStr (''SOAP Fault: '' @ (case message of Some x \<Rightarrow> x | None \<Rightarrow> s)))"
  "map_of (fault_envelope message code detail s m) ''method'' = Some (PStr m)"
  by (cases code; cases detail; cases message; simp add: fault_envelope_def Let_def)+

lemma safe_soap_call_state:
  "snd (safe_soap_call w st m p rid k) = snd (safe_soap_call_body w st m p rid k)"
  by (auto simp: safe_soap_call_def split: prod.splits sum.splits exn.splits)




text \<open>
  Called one after the other, \<^verbatim>\<open>get_soap_client\<close> builds the client once: after a
  call that returned a client, every later call returns that client from the state
  and fetches nothing, and the first call fetched the descriptor once.
\<close>

lemma get_soap_client_init_once:
  assumes "get_soap_client w st = (Inr c, st1)"
  shows "get_soap_client w' st1 = (Inr c, st1)"
    and "soap_client st = None \<Longrightarrow> \<exists>t. events st1 = events st @ [DescriptorFetch WSDL_URL t]"
  using assms
  by (auto simp: get_soap_client_def Let_def split: option.splits sum.splits)

section \<open>Credential resolution\<close>

text \<open>
  C8. Credential resolution gives explicit values precedence over the environment
  defaults, field by field. With the explicit pair A, B and the environment defaults
  X, Y all present, the result is (A, B); any non-empty explicit pair is returned as
  it is; where one explicit field is missing, the environment's value for that field
  is merged with the other explicit field; and resolution fails exactly when some
  field can be obtained from neither source.
\<close>

theorem credentials_precedence:
  "validate_credentials (\<lambda>n. if n = ''SYNERGY_RESELLER_ID'' then Some ''X''
                              else if n = ''SYNERGY_API_KEY'' then Some ''Y'' else None)
     (Some ''A'') (Some ''B'') = Inr (''A'', ''B'')
   \<and> (a \<noteq> [] \<and> b \<noteq> [] \<longrightarrow> validate_credentials env (Some a) (Some b) = Inr (a, b))
   \<and> (a \<noteq> [] \<and> \<not> truthy api_key \<and> env ''SYNERGY_API_KEY'' = Some y \<and> y \<noteq> [] \<longrightarrow>
        validate_credentials env (Some a) api_key = Inr (a, y))
   \<and> (\<not> truthy reseller_id \<and> env ''SYNERGY_RESELLER_ID'' = Some x \<and> x \<noteq> [] \<and> b \<noteq> [] \<longrightarrow>
        validate_credentials env reseller_id (Some b) = Inr (x, b))
   \<and> ((\<exists>e. validate_credentials env reseller_id api_key = Inl e) \<longleftrightarrow>
        (\<not> truthy reseller_id \<and> \<not> truthy (env ''SYNERGY_RESELLER_ID'')) \<or>
        (\<not> truthy api_key \<and> \<not> truthy (env ''SYNERGY_API_KEY'')))"
  by (auto simp: validate_credentials_def py_or_def truthy_def Let_def split: option.splits)

theorem credentials_precedence_witness:
  "validate_credentials (\<lambda>n. if n = ''SYNERGY_API_KEY'' then Some ''Y'' else None)
     (Some ''A'') None = Inr (''A'', ''Y'')
   \<and> validate_credentials (\<lambda>n. if n = ''SYNERGY_RESELLER_ID'' then Some ''X'' else None)
     None (Some ''B'') = Inr (''X'', ''B'')
   \<and> (\<exists>e. validate_credentials (\<lambda>n. if n = ''SYNERGY_API_KEY'' then Some ''Y'' else None)
     None (Some ''B'') = Inl e)"
  using credentials_precedence [where a = "''A''" and b = "''B''" and y = "''Y''" and x = "''X''"
      and env = "\<lambda>n. if n = ''SYNERGY_API_KEY'' then Some ''Y'' else None"
      and reseller_id = None and api_key = None]
    credentials_precedence [where a = "''A''" and b = "''B''" and y = "''Y''" and x = "''X''"
      and env = "\<lambda>n. if n = ''SYNERGY_RESELLER_ID'' then Some ''X'' else None"
      and reseller_id = None and api_key = None]
    credentials_precedence [where a = "''A''" and b = "''B''" and y = "''Y''" and x = "''X''"
      and env = "\<lambda>n. if n = ''SYNERGY_API_KEY'' then Some ''Y'' else None"
      and reseller_id = None and api_key = "Some ''B''"]
  by (simp add: truthy_def)



section \<open>Request building\<close>

text \<open>
  Against C2 as stated: with resolved credentials (A, B) and caller parameters that
  hold \<^verbatim>\<open>apiKey\<close>, the merged parameters, and the keyword arguments that reach the
  remote operation, carry the caller's \<^verbatim>\<open>apiKey\<close>, not the resolved one.
\<close>

theorem caller_params_counterexample:
  "add_auth no_env [(''domainName'', PStr ''example.com''), (''apiKey'', PStr ''caller'')]
     (Some ''A'') (Some ''B'') =
   Inr [(''resellerID'', PStr ''A''), (''apiKey'', PStr ''caller''),
        (''domainName'', PStr ''example.com'')]
   \<and> events (snd (safe_soap_call (stub_world no_env (untyped_client timing_out)) fresh ''checkDomain''
        [(''domainName'', PStr ''example.com''), (''apiKey'', PStr ''caller'')] (Some ''A'') (Some ''B''))) =
     [DescriptorFetch WSDL_URL 30,
      RemoteCall ''checkDomain''
        (Keywords [(''resellerID'', PStr ''A''), (''apiKey'', PStr ''caller''),
                   (''domainName'', PStr ''example.com'')])]"
  by (simp add: run stubs)

text \<open>
  C2, amended. \<^verbatim>\<open>add_auth\<close> writes the credentials first and the caller's parameters
  over them: for each of the two reserved keys the merged parameters carry the
  caller's value when the caller supplies one and the resolved credential otherwise,
  and every other key carries the caller's value.
\<close>

theorem caller_params_win:
  assumes "distinct (map fst params)"
    and "validate_credentials env reseller_id api_key = Inr (rid, key)"
  shows "\<exists>d. add_auth env params reseller_id api_key = Inr d
            \<and> map_of d ''resellerID'' =
                Some (case map_of params ''resellerID'' of Some v \<Rightarrow> v | None \<Rightarrow> PStr rid)
            \<and> map_of d ''apiKey'' =
                Some (case map_of params ''apiKey'' of Some v \<Rightarrow> v | None \<Rightarrow> PStr key)
            \<and> (\<forall>k. k \<noteq> ''resellerID'' \<and> k \<noteq> ''apiKey'' \<longrightarrow> map_of d k = map_of params k)"
  using assms(2) map_of_dict_merge [OF assms(1)]
  by (auto simp: add_auth_def split: option.splits)

theorem caller_params_win_witness:
  "\<exists>d. add_auth no_env [(''domainName'', PStr ''example.com''), (''apiKey'', PStr ''caller'')]
          (Some ''A'') (Some ''B'') = Inr d
       \<and> map_of d ''resellerID'' = Some (PStr ''A'')
       \<and> map_of d ''apiKey'' = Some (PStr ''caller'')"
proof -
  have v: "validate_credentials no_env (Some ''A'') (Some ''B'') = Inr (''A'', ''B'')"
    by (simp add: run stubs)
  have d: "distinct (map fst [(''domainName'', PStr ''example.com''), (''apiKey'', PStr ''caller'')])"
    by simp
  from caller_params_win [OF d v] show ?thesis by auto
qed

section \<open>Response normalisation: the status convention\<close>

text \<open>
  C5. The two examples of the status convention. The raw mapping with
  \<^verbatim>\<open>status\<close> ERR_X, \<^verbatim>\<open>errorMessage\<close> msg and \<^verbatim>\<open>other\<close> 1 normalises
  to a mapping equal, as a dictionary, to the same three fields plus
  \<^verbatim>\<open>error\<close> msg; the raw mapping with only \<^verbatim>\<open>status\<close> ERR_X gets
  \<^verbatim>\<open>error\<close> "Unknown error occurred".
\<close>

theorem status_convention_examples:
  "handle_soap_response
     (PDict [(''status'', PStr ''ERR_X''), (''errorMessage'', PStr ''msg''), (''other'', PInt 1)]) =
   Inr (PDict [(''error'', PStr ''msg''), (''status'', PStr ''ERR_X''),
               (''errorMessage'', PStr ''msg''), (''other'', PInt 1)])
   \<and> dict_eq [(''error'', PStr ''msg''), (''status'', PStr ''ERR_X''),
              (''errorMessage'', PStr ''msg''), (''other'', PInt 1)]
             [(''status'', PStr ''ERR_X''), (''errorMessage'', PStr ''msg''), (''other'', PInt 1),
              (''error'', PStr ''msg'')]
   \<and> handle_soap_response (PDict [(''status'', PStr ''ERR_X'')]) =
       Inr (PDict [(''error'', PStr ''Unknown error occurred''), (''status'', PStr ''ERR_X'')])"
  by (simp add: handle_soap_response_def try_serialize_def check_status_def dict_merge_def dict_eq_def)

text \<open>
  C7. On a plain mapping (distinct keys, no schema-typed object inside)
  normalisation returns a mapping, and normalising that mapping again returns it
  unchanged, in the same order.
\<close>

theorem normalize_idempotent:
  assumes pl: "plain (PDict m)" and dist: "distinct (map fst m)"
  shows "\<exists>m'. handle_soap_response (PDict m) = Inr (PDict m')
              \<and> handle_soap_response (PDict m') = Inr (PDict m')"
proof (cases "\<exists>s. map_of m ''status'' = Some (PStr s) \<and> prefix ''ERR_'' s")
  case False
  then have "check_status (PDict m) = Inr (PDict m)" by (rule check_status_pass)
  with handle_plain_dict [OF pl] show ?thesis by simp
next
  case True
  then obtain s where st: "map_of m ''status'' = Some (PStr s)" and err: "prefix ''ERR_'' s"
    by blast
  define em where "em = (case map_of m ''errorMessage'' of
                           Some v \<Rightarrow> v | None \<Rightarrow> PStr ''Unknown error occurred'')"
  define base where "base = [(''error'', em), (''status'', PStr s)]"
  define m' where "m' = dict_merge base m"
  have first: "handle_soap_response (PDict m) = Inr (PDict m')"
    using handle_plain_dict [OF pl] check_status_retag [OF st err]
    by (simp add: m'_def base_def em_def)
  have plain_em: "plain em"
  proof (cases "map_of m ''errorMessage''")
    case None
    then show ?thesis by (simp add: em_def)
  next
    case (Some v)
    then have "(''errorMessage'', v) \<in> set m" by (rule map_of_SomeD)
    then have "v \<in> snd ` set m" by force
    with pl Some show ?thesis unfolding plain_dict_iff em_def by auto
  qed
  have pl': "plain (PDict m')"
    unfolding plain_dict_iff
  proof
    fix v assume "v \<in> snd ` set m'"
    then obtain k where "(k, v) \<in> set m'" by auto
    with set_dict_merge [of base m] have "(k, v) \<in> set base \<or> (k, v) \<in> set m"
      by (auto simp: m'_def)
    then show "plain v"
    proof
      assume "(k, v) \<in> set base"
      with plain_em show ?thesis by (auto simp: base_def)
    next
      assume "(k, v) \<in> set m"
      then have "v \<in> snd ` set m" by force
      with pl show ?thesis unfolding plain_dict_iff by auto
    qed
  qed
  have st': "map_of m' ''status'' = Some (PStr s)"
    using map_of_dict_merge [OF dist, of base "''status''"] st by (simp add: m'_def)
  define base' where "base' = [(''error'', case map_of m' ''errorMessage'' of
                                   Some v \<Rightarrow> v | None \<Rightarrow> PStr ''Unknown error occurred''),
                               (''status'', PStr s)]"
  have "dict_merge base' m' = m'"
    unfolding m'_def by (rule dict_merge_absorbs) (simp_all add: base_def base'_def)
  then have second: "handle_soap_response (PDict m') = Inr (PDict m')"
    using handle_plain_dict [OF pl'] check_status_retag [OF st' err]
    by (simp add: base'_def)
  from first second show ?thesis by blast
qed

theorem normalize_idempotent_witness:
  "\<exists>m'. handle_soap_response
           (PDict [(''other'', PInt 1), (''status'', PStr ''ERR_X''), (''errorMessage'', PStr ''msg'')]) =
         Inr (PDict m')
       \<and> handle_soap_response (PDict m') = Inr (PDict m')"
  using normalize_idempotent
    [of "[(''other'', PInt 1), (''status'', PStr ''ERR_X''), (''errorMessage'', PStr ''msg'')]"]
  by simp

text \<open>
  C10. When the raw mapping holds an \<^verbatim>\<open>error\<close> field and a \<^verbatim>\<open>status\<close>
  string starting with ERR_, the re-tagged result keeps the original \<^verbatim>\<open>error\<close>
  value (serialised like every field, so unchanged when it is plain) whatever
  \<^verbatim>\<open>errorMessage\<close> says: every key of the result carries the original field.
\<close>

theorem original_error_field_wins:
  assumes dist: "distinct (map fst m)"
    and st: "map_of m ''status'' = Some (PStr s)" and err: "prefix ''ERR_'' s"
    and orig: "map_of m ''error'' = Some v"
  shows "\<exists>d. handle_soap_response (PDict m) = Inr (PDict d)
            \<and> map_of d ''error'' = Some (serialize_object v)
            \<and> (plain v \<longrightarrow> map_of d ''error'' = Some v)
            \<and> (\<forall>k. map_of d k = map_option serialize_object (map_of m k))"
proof -
  let ?r = "map (map_prod id serialize_object) m"
  let ?base = "[(''error'', case map_of ?r ''errorMessage'' of
                   Some x \<Rightarrow> x | None \<Rightarrow> PStr ''Unknown error occurred''),
                (''status'', PStr s)]"
  have dr: "distinct (map fst ?r)" using dist by (simp add: comp_def)
  have str: "map_of ?r ''status'' = Some (PStr s)"
    using st by (simp add: map_of_serialized)
  have h: "handle_soap_response (PDict m) = Inr (PDict (dict_merge ?base ?r))"
    using check_status_retag [OF str err]
    by (simp add: handle_soap_response_def try_serialize_def)
  have look: "map_of (dict_merge ?base ?r) k = map_option serialize_object (map_of m k)" for k
    using map_of_dict_merge [OF dr, of ?base k] st orig
    by (auto simp: map_of_serialized split: option.splits)
  have e: "map_of (dict_merge ?base ?r) ''error'' = Some (serialize_object v)"
    using look [of "''error''"] orig by simp
  show ?thesis
    using h e look plain_serialize [of v] by auto
qed

theorem original_error_field_wins_witness:
  "\<exists>d. handle_soap_response
          (PDict [(''status'', PStr ''ERR_X''), (''errorMessage'', PStr ''msg''),
                  (''error'', PStr ''original'')]) = Inr (PDict d)
       \<and> map_of d ''error'' = Some (PStr ''original'')"
  using original_error_field_wins
    [of "[(''status'', PStr ''ERR_X''), (''errorMessage'', PStr ''msg''), (''error'', PStr ''original'')]"
        "''ERR_X''" "PStr ''original''"]
  by auto

section \<open>The orchestrator\<close>

text \<open>
  Against C1 as stated: with no explicit credentials and an empty environment, on a
  fresh process, \<^verbatim>\<open>safe_soap_call\<close> raises nothing. It returns an error mapping,
  and the descriptor has been fetched by then.
\<close>

theorem missing_credentials_counterexample:
  "validate_credentials (getenv (stub_world no_env (typed_client timing_out))) None None =
     Inl (Exception ''ValueError'' missing_credentials_msg)
   \<and> fst (safe_soap_call (stub_world no_env (typed_client timing_out)) fresh
             ''balanceQuery'' [] None None) =
     Inr (PDict [(''error'', PStr missing_credentials_msg), (''method'', PStr ''balanceQuery''),
                 (''error_type'', PStr ''ValueError'')])
   \<and> events (snd (safe_soap_call (stub_world no_env (typed_client timing_out)) fresh
                     ''balanceQuery'' [] None None)) =
     [DescriptorFetch WSDL_URL 30]"
  by (simp add: run stubs)

text \<open>
  C1, amended. When the credentials cannot be resolved, \<^verbatim>\<open>safe_soap_call\<close> raises
  nothing: it returns a mapping with \<^verbatim>\<open>error\<close> and \<^verbatim>\<open>method\<close>, which is
  the missing-credentials message with \<^verbatim>\<open>error_type\<close> ValueError once the client
  and the operation have been obtained. No remote operation is called: the state
  afterwards is the one \<^verbatim>\<open>get_soap_client\<close> leaves. The client is obtained before
  the credentials are resolved, so on a process with no client yet, whose timeout
  setting is an integer, the descriptor fetch has taken place.
\<close>

theorem missing_credentials_envelope:
  assumes "validate_credentials (getenv w) reseller_id api_key = Inl e"
  shows "(\<exists>d msg. fst (safe_soap_call w st m p reseller_id api_key) = Inr (PDict d)
            \<and> map_of d ''error'' = Some (PStr msg) \<and> map_of d ''method'' = Some (PStr m))
       \<and> (\<forall>c st1 method. get_soap_client w st = (Inr c, st1) \<and> service c m = Inr method \<longrightarrow>
            fst (safe_soap_call w st m p reseller_id api_key) =
              Inr (PDict [(''error'', PStr missing_credentials_msg), (''method'', PStr m),
                          (''error_type'', PStr ''ValueError'')]))
       \<and> snd (safe_soap_call w st m p reseller_id api_key) = snd (get_soap_client w st)
       \<and> filter is_remote_call (events (snd (safe_soap_call w st m p reseller_id api_key))) =
           filter is_remote_call (events st)
       \<and> (\<forall>timeout. soap_client st = None \<and>
              py_int w (case getenv w ''API_TIMEOUT'' of
                          None \<Rightarrow> string_of_int DEFAULT_TIMEOUT | Some s \<Rightarrow> s) = Inr timeout \<longrightarrow>
            events (snd (safe_soap_call w st m p reseller_id api_key)) =
              events st @ [DescriptorFetch WSDL_URL timeout])"
proof -
  let ?call = "safe_soap_call w st m p reseller_id api_key"
  let ?body = "safe_soap_call_body w st m p reseller_id api_key"
  from body_without_credentials(2) [OF assms] obtain e' where e': "fst ?body = Inl e'"
    by blast
  have env: "\<exists>d msg. fst ?call = Inr (PDict d) \<and> map_of d ''error'' = Some (PStr msg)
                     \<and> map_of d ''method'' = Some (PStr m)"
    using envelope_of_body(1) [OF e'] by (cases e') (simp_all add: fault_envelope_keys)
  have exact: "fst ?call = Inr (PDict [(''error'', PStr missing_credentials_msg),
                 (''method'', PStr m), (''error_type'', PStr ''ValueError'')])"
    if "get_soap_client w st = (Inr c, st1)" "service c m = Inr operation" for c st1 operation
    using envelope_of_body(1) [of w st m p reseller_id api_key]
      body_without_credentials(3) [OF assms that]
    by simp
  have state: "snd ?call = snd (get_soap_client w st)"
    using safe_soap_call_state body_without_credentials(1) [OF assms] by simp
  have ev: "events (snd ?call) = events (snd (get_soap_client w st))"
    using state by simp
  have none: "filter is_remote_call (events (snd ?call)) = filter is_remote_call (events st)"
    unfolding ev get_soap_client_events by (simp split: option.splits sum.splits)
  have fetch: "events (snd ?call) = events st @ [DescriptorFetch WSDL_URL timeout]"
    if "soap_client st = None"
       "py_int w (case getenv w ''API_TIMEOUT'' of
                    None \<Rightarrow> string_of_int DEFAULT_TIMEOUT | Some s \<Rightarrow> s) = Inr timeout"
    for timeout
    unfolding ev get_soap_client_events using that by simp
  from env exact state none fetch show ?thesis by blast
qed

theorem missing_credentials_envelope_witness:
  "fst (safe_soap_call (stub_world no_env (typed_client timing_out)) fresh ''balanceQuery'' [] None None) =
     Inr (PDict [(''error'', PStr missing_credentials_msg), (''method'', PStr ''balanceQuery''),
                 (''error_type'', PStr ''ValueError'')])
   \<and> events (snd (safe_soap_call (stub_world no_env (typed_client timing_out)) fresh
                     ''balanceQuery'' [] None None)) = [DescriptorFetch WSDL_URL 30]"
proof -
  have v: "validate_credentials (getenv (stub_world no_env (typed_client timing_out))) None None =
           Inl (Exception ''ValueError'' missing_credentials_msg)"
    by (simp add: run stubs)
  have g: "get_soap_client (stub_world no_env (typed_client timing_out)) fresh =
           (Inr (typed_client timing_out),
            \<lparr>soap_client = Some (typed_client timing_out), events = [DescriptorFetch WSDL_URL 30]\<rparr>)"
    by (simp add: run stubs)
  have s: "service (typed_client timing_out) ''balanceQuery'' = Inr timing_out"
    by (simp add: stubs)
  have i: "py_int (stub_world no_env (typed_client timing_out))
             (case getenv (stub_world no_env (typed_client timing_out)) ''API_TIMEOUT'' of
                None \<Rightarrow> string_of_int DEFAULT_TIMEOUT | Some s \<Rightarrow> s) = Inr 30"
    by (simp add: run stubs)
  have f: "soap_client fresh = None" "events fresh = []" by (simp_all add: fresh_def)
  from missing_credentials_envelope [OF v, of fresh "''balanceQuery''" "[]"] g s i f
  show ?thesis by simp
qed




text \<open>
  C4. A run in which the typed request is found and built and the network round trip
  of the typed call times out: the operation is called a second time, with keyword
  arguments, so the log holds two remote calls; and when that second call answers,
  the first failure is not reported at all.
\<close>

theorem typed_call_failure_is_retried:
  "safe_soap_call (stub_world no_env (typed_client timing_out)) fresh ''checkDomain''
     [(''domainName'', PStr ''bad'')] (Some ''A'') (Some ''B'') =
   (Inr (PDict [(''error'', PStr ''Transport error: timed out''), (''method'', PStr ''checkDomain''),
                (''suggestion'', PStr ''Check network connectivity and API endpoint'')]),
    \<lparr>soap_client = Some (typed_client timing_out),
     events = [DescriptorFetch WSDL_URL 30,
               RemoteCall ''checkDomain''
                 (Positional (PCompound [(''resellerID'', PStr ''A''), (''apiKey'', PStr ''B''),
                                         (''domainName'', PStr ''bad'')])),
               RemoteCall ''checkDomain''
                 (Keywords [(''resellerID'', PStr ''A''), (''apiKey'', PStr ''B''),
                            (''domainName'', PStr ''bad'')])]\<rparr>)
   \<and> fst (safe_soap_call (stub_world no_env (typed_client typed_times_out)) fresh ''checkDomain''
        [(''domainName'', PStr ''bad'')] (Some ''A'') (Some ''B'')) =
     Inr (PDict [(''status'', PStr ''OK'')])
   \<and> length (filter is_remote_call
        (events (snd (safe_soap_call (stub_world no_env (typed_client typed_times_out)) fresh
           ''checkDomain'' [(''domainName'', PStr ''bad'')] (Some ''A'') (Some ''B''))))) = 2"
  by (simp add: run stubs)

end
